theory Spec2Isabelle
  imports Complex_Main
begin

section \<open>Conventions of the embedding\<close>

text \<open>
  The analyser is Python over pandas data frames. A data frame is modelled as the list of
  its rows, a row as a record of the columns the analysis reads. Python floats are
  idealised as real numbers: every comparison of the source is then the comparison of the
  values, and the decimal literals of \<^verbatim>\<open>config.py\<close> (\<^verbatim>\<open>0.8\<close>, \<^verbatim>\<open>0.15\<close>, ...)
  are the rationals they denote. All columns are assumed finite (no NaN), which is what
  \<^verbatim>\<open>DataFetcher.fetch_quote\<close> delivers for the price columns.
  A value that the code computes by float arithmetic carries a rounding error
  (\<^verbatim>\<open>0.3 - 0.2\<close> is \<^verbatim>\<open>0.09999999999999998\<close>), so where the code compares such a value
  with a cut-off that the exact value meets, the code may take the other branch. The
  theorems below evaluate a comparison at a cut-off only where the floats agree with the
  exact values: an argument that is itself the literal of the cut-off, or a single
  correctly rounded quotient against the literal of its value (\<^verbatim>\<open>8 / 10\<close> and \<^verbatim>\<open>0.8\<close>).
  Display strings that carry emoji are represented by the constructors of small datatypes,
  one constructor per fixed string.
\<close>

section \<open>Thresholds (config.py, class Thresholds)\<close>

definition STRONG_MOVE :: real where "STRONG_MOVE = 2"
definition MODERATE_MOVE :: real where "MODERATE_MOVE = 1"
definition EXPLOSIVE_MOVE :: real where "EXPLOSIVE_MOVE = 5"
definition STRONG_EXPLOSIVE :: real where "STRONG_EXPLOSIVE = 3"
definition VOLUME_MULTIPLIER :: real where "VOLUME_MULTIPLIER = 1"

definition EXTREME_BULL :: real where "EXTREME_BULL = 0.8"
definition STRONG_BULL :: real where "STRONG_BULL = 0.4"
definition WEAK_BULL :: real where "WEAK_BULL = 0.15"
definition NO_TRADE_LOW :: real where "NO_TRADE_LOW = - 0.15"
definition WEAK_BEAR :: real where "WEAK_BEAR = - 0.4"
definition STRONG_BEAR :: real where "STRONG_BEAR = - 0.8"

definition WEAK_PARTICIPATION :: real where "WEAK_PARTICIPATION = 40"

definition HISTORY_DAYS :: nat where "HISTORY_DAYS = 30"

definition SCORE_DECIMALS :: nat where "SCORE_DECIMALS = 3"
definition RATIO_DECIMALS :: nat where "RATIO_DECIMALS = 2"

section \<open>Rows of the instrument table\<close>

text \<open>One row as \<^verbatim>\<open>DataFetcher.fetch_quote\<close> builds it.\<close>

record quote =
  symbol :: string
  price :: real
  prev_close :: real
  pct_change :: real
  volume :: int
  avg_volume :: int
  volume_ratio :: real

datatype category = Strong_Bull | Weak_Bull | Neutral | Weak_Bear | Strong_Bear

text \<open>A row of the frame after \<^verbatim>\<open>classify_stocks\<close> added the category column.\<close>

type_synonym classified = "quote \<times> category"

section \<open>BreadthAnalyzer.classify_stocks (analysis.py)\<close>

text \<open>
  The source fills the column with \<^verbatim>\<open>'Neutral'\<close> and then performs four masked
  assignments \<^verbatim>\<open>df.loc[mask, 'category'] = value\<close>, in this order. Each assignment
  overwrites the category of the rows its mask selects and leaves the others alone.
\<close>

definition strong_bull_mask :: "quote \<Rightarrow> bool" where
  "strong_bull_mask q \<longleftrightarrow> pct_change q > STRONG_MOVE \<and> volume_ratio q > VOLUME_MULTIPLIER"

definition weak_bull_mask :: "quote \<Rightarrow> bool" where
  "weak_bull_mask q \<longleftrightarrow> pct_change q > STRONG_MOVE \<and> volume_ratio q \<le> VOLUME_MULTIPLIER"

definition strong_bear_mask :: "quote \<Rightarrow> bool" where
  "strong_bear_mask q \<longleftrightarrow> pct_change q < - STRONG_MOVE \<and> volume_ratio q > VOLUME_MULTIPLIER"

definition weak_bear_mask :: "quote \<Rightarrow> bool" where
  "weak_bear_mask q \<longleftrightarrow> pct_change q < - STRONG_MOVE \<and> volume_ratio q \<le> VOLUME_MULTIPLIER"

definition loc_assign :: "(quote \<Rightarrow> bool) \<Rightarrow> category \<Rightarrow> classified list \<Rightarrow> classified list" where
  "loc_assign msk v df = map (\<lambda>(q, c). (q, if msk q then v else c)) df"

definition classify_stocks :: "quote list \<Rightarrow> classified list" where
  "classify_stocks df =
     loc_assign weak_bear_mask Weak_Bear
       (loc_assign strong_bear_mask Strong_Bear
         (loc_assign weak_bull_mask Weak_Bull
           (loc_assign strong_bull_mask Strong_Bull
             (map (\<lambda>q. (q, Neutral)) df))))"

text \<open>
  The rule of the specification, in its own words: a priority list over strict
  comparisons, the first match wins.
\<close>

definition first_match_category :: "real \<Rightarrow> real \<Rightarrow> category" where
  "first_match_category percent_change vol_ratio =
     (if percent_change > STRONG_MOVE \<and> vol_ratio > VOLUME_MULTIPLIER then Strong_Bull
      else if percent_change > STRONG_MOVE then Weak_Bull
      else if percent_change < - STRONG_MOVE \<and> vol_ratio > VOLUME_MULTIPLIER then Strong_Bear
      else if percent_change < - STRONG_MOVE then Weak_Bear
      else Neutral)"

section \<open>Python primitives used by the analysis\<close>

datatype error = ZeroDivisionError | KeyError | JSONDecodeError | FileNotFoundError | OSError

text \<open>
  \<^verbatim>\<open>round(x, ndigits)\<close> gives the multiple of \<open>10\<^sup>-\<^sup>n\<close> nearest to \<open>x\<close>. When \<open>x\<close>
  lies exactly half way between two of them, Python decides on the binary double that
  stands for \<open>x\<close>: that double may lie just below the tie (\<^verbatim>\<open>round(2.675, 2)\<close> is
  \<^verbatim>\<open>2.67\<close>), just above it (\<^verbatim>\<open>round(0.0125, 3)\<close> is \<^verbatim>\<open>0.013\<close>), or be the tie itself
  (\<^verbatim>\<open>round(0.0625, 3)\<close> is \<^verbatim>\<open>0.062\<close>, the even neighbour). Which of these happens is a
  property of the float representation and not of the real number, so the decision at a
  tie is a parameter of the model: a \<open>tie_rule\<close> says, for the value and the number of
  digits, whether a tie goes up. Every function that rounds takes the rule as its first
  argument, and every theorem holds for every rule.
\<close>

type_synonym tie_rule = "real \<Rightarrow> nat \<Rightarrow> bool"

definition py_round :: "tie_rule \<Rightarrow> real \<Rightarrow> nat \<Rightarrow> real" where
  "py_round ties x ndigits =
     (let y = x * 10 ^ ndigits; f = \<lfloor>y\<rfloor>; d = y - of_int f
      in of_int (if d < 1 / 2 then f
                 else if d > 1 / 2 then f + 1
                 else if ties x ndigits then f + 1 else f) / 10 ^ ndigits)"

text \<open>
  The rule of the case where the double is the tie itself: the even neighbour. It is the
  rule used to evaluate the model on concrete tables; none of them rounds at a tie.
\<close>

definition ties_to_even :: tie_rule where
  "ties_to_even x ndigits \<longleftrightarrow> odd \<lfloor>x * 10 ^ ndigits\<rfloor>"

text \<open>A float that may be \<^verbatim>\<open>float('inf')\<close>; \<^verbatim>\<open>round(float('inf'), n)\<close> is \<^verbatim>\<open>inf\<close>.\<close>

datatype ratio = Finite real | Infinite

fun round_ratio :: "tie_rule \<Rightarrow> ratio \<Rightarrow> nat \<Rightarrow> ratio" where
  "round_ratio ties (Finite x) n = Finite (py_round ties x n)"
| "round_ratio ties Infinite n = Infinite"

text \<open>\<^verbatim>\<open>a / b\<close> on Python integers: true division, raising on a zero divisor.\<close>

definition true_div :: "nat \<Rightarrow> nat \<Rightarrow> error + real" where
  "true_div a b = (if b = 0 then Inl ZeroDivisionError else Inr (real a / real b))"

text \<open>\<^verbatim>\<open>xs[-n:]\<close>: the last \<open>n\<close> elements, all of them when there are fewer; \<^verbatim>\<open>xs[-0:]\<close>
  is \<^verbatim>\<open>xs[0:]\<close>, the whole list.\<close>

definition last_n :: "nat \<Rightarrow> 'a list \<Rightarrow> 'a list" where
  "last_n n xs = (if n = 0 then xs else drop (length xs - n) xs)"

text \<open>\<^verbatim>\<open>len(df[mask])\<close>: the number of rows a mask selects.\<close>

definition count_rows :: "('r \<Rightarrow> bool) \<Rightarrow> 'r list \<Rightarrow> nat" where
  "count_rows msk df = length (filter msk df)"

text \<open>\<^verbatim>\<open>Series.mean()\<close> of a column with at least one row.\<close>

definition mean :: "real list \<Rightarrow> real" where
  "mean xs = sum_list xs / real (length xs)"

section \<open>BreadthAnalyzer.calculate_breadth_score (analysis.py)\<close>

record breadth_data =
  bd_score :: real
  bd_strong_bulls :: nat
  bd_weak_bulls :: nat
  bd_strong_bears :: nat
  bd_weak_bears :: nat
  bd_neutral :: nat
  bd_total :: nat
  bd_total_bulls :: nat
  bd_total_bears :: nat
  bd_bull_bear_ratio :: ratio

text \<open>\<^verbatim>\<open>counts = self.df['category'].value_counts()\<close> read with \<^verbatim>\<open>counts.get(c, 0)\<close>.\<close>

definition value_counts :: "classified list \<Rightarrow> category \<Rightarrow> nat" where
  "value_counts df c = count_rows (\<lambda>r. snd r = c) df"

text \<open>The local variable \<^verbatim>\<open>score\<close>: the weighted quotient, before any rounding.\<close>

definition weighted_score :: "classified list \<Rightarrow> real" where
  "weighted_score df =
     (let counts = value_counts df;
          strong_bulls = counts Strong_Bull;
          weak_bulls = counts Weak_Bull;
          strong_bears = counts Strong_Bear;
          weak_bears = counts Weak_Bear;
          numerator = int strong_bulls * 2 + int weak_bulls * 1
                      - int strong_bears * 2 - int weak_bears * 1;
          denominator = length df
      in if denominator > 0 then of_int numerator / of_nat denominator else 0)"

text \<open>The local variable \<^verbatim>\<open>bull_bear_ratio\<close>, before any rounding.\<close>

definition bull_bear :: "classified list \<Rightarrow> ratio" where
  "bull_bear df =
     (let counts = value_counts df;
          total_bulls = counts Strong_Bull + counts Weak_Bull;
          total_bears = counts Strong_Bear + counts Weak_Bear
      in if total_bears > 0 then Finite (real total_bulls / real total_bears) else Infinite)"

definition calculate_breadth_score :: "tie_rule \<Rightarrow> classified list \<Rightarrow> breadth_data" where
  "calculate_breadth_score ties df =
     (let counts = value_counts df;
          strong_bulls = counts Strong_Bull;
          weak_bulls = counts Weak_Bull;
          strong_bears = counts Strong_Bear;
          weak_bears = counts Weak_Bear;
          neutral = counts Neutral;
          denominator = length df;
          score = weighted_score df;
          total_bulls = strong_bulls + weak_bulls;
          total_bears = strong_bears + weak_bears;
          bull_bear_ratio = bull_bear df
      in \<lparr> bd_score = py_round ties score SCORE_DECIMALS,
           bd_strong_bulls = strong_bulls,
           bd_weak_bulls = weak_bulls,
           bd_strong_bears = strong_bears,
           bd_weak_bears = weak_bears,
           bd_neutral = neutral,
           bd_total = denominator,
           bd_total_bulls = total_bulls,
           bd_total_bears = total_bears,
           bd_bull_bear_ratio = round_ratio ties bull_bear_ratio RATIO_DECIMALS \<rparr>)"

section \<open>BreadthAnalyzer.calculate_magnitude_analysis (analysis.py)\<close>

text \<open>The six masks of the source, one per bucket.\<close>

definition explosive_up_mask :: "real \<Rightarrow> bool" where
  "explosive_up_mask p \<longleftrightarrow> p > EXPLOSIVE_MOVE"

definition strong_up_mask :: "real \<Rightarrow> bool" where
  "strong_up_mask p \<longleftrightarrow> p \<ge> STRONG_EXPLOSIVE \<and> p \<le> EXPLOSIVE_MOVE"

definition moderate_up_mask :: "real \<Rightarrow> bool" where
  "moderate_up_mask p \<longleftrightarrow> p \<ge> STRONG_MOVE \<and> p < STRONG_EXPLOSIVE"

definition explosive_down_mask :: "real \<Rightarrow> bool" where
  "explosive_down_mask p \<longleftrightarrow> p < - EXPLOSIVE_MOVE"

definition strong_down_mask :: "real \<Rightarrow> bool" where
  "strong_down_mask p \<longleftrightarrow> p \<le> - STRONG_EXPLOSIVE \<and> p > - EXPLOSIVE_MOVE"

definition moderate_down_mask :: "real \<Rightarrow> bool" where
  "moderate_down_mask p \<longleftrightarrow> p \<le> - STRONG_MOVE \<and> p > - STRONG_EXPLOSIVE"

record magnitude_data =
  md_ultra_score :: real
  md_explosive_up :: nat
  md_strong_up :: nat
  md_moderate_up :: nat
  md_explosive_down :: nat
  md_strong_down :: nat
  md_moderate_down :: nat

definition calculate_magnitude_analysis :: "tie_rule \<Rightarrow> classified list \<Rightarrow> magnitude_data" where
  "calculate_magnitude_analysis ties df =
     (let explosive_up = count_rows (\<lambda>r. explosive_up_mask (pct_change (fst r))) df;
          strong_up = count_rows (\<lambda>r. strong_up_mask (pct_change (fst r))) df;
          moderate_up = count_rows (\<lambda>r. moderate_up_mask (pct_change (fst r))) df;
          explosive_down = count_rows (\<lambda>r. explosive_down_mask (pct_change (fst r))) df;
          strong_down = count_rows (\<lambda>r. strong_down_mask (pct_change (fst r))) df;
          moderate_down = count_rows (\<lambda>r. moderate_down_mask (pct_change (fst r))) df;
          numerator = int explosive_up * 3 + int strong_up * 2 + int moderate_up * 1
                      - int explosive_down * 3 - int strong_down * 2 - int moderate_down * 1;
          ultra_score = (if length df > 0 then of_int numerator / of_nat (length df) else 0)
      in \<lparr> md_ultra_score = py_round ties ultra_score SCORE_DECIMALS,
           md_explosive_up = explosive_up,
           md_strong_up = strong_up,
           md_moderate_up = moderate_up,
           md_explosive_down = explosive_down,
           md_strong_down = strong_down,
           md_moderate_down = moderate_down \<rparr>)"

section \<open>BreadthAnalyzer.classify_regime (analysis.py)\<close>

text \<open>The keys of \<^verbatim>\<open>REGIMES\<close>; each stands for its fixed display name as well.\<close>

datatype regime =
  Regime_EXTREME_BULL | Regime_STRONG_BULL | Regime_WEAK_BULL | Regime_NO_TRADE
  | Regime_WEAK_BEAR | Regime_STRONG_BEAR | Regime_EXTREME_BEAR

text \<open>
  The action text: the fixed action of a regime, and whether the narrow-leadership
  warning was appended to it.
\<close>

record action =
  regime_action :: regime
  narrow_leadership_warning :: bool

text \<open>
  What \<^verbatim>\<open>classify_regime\<close> reads of \<^verbatim>\<open>self.sector_data\<close>, the result of
  \<^verbatim>\<open>calculate_sector_breadth\<close>.
\<close>

record sector_data =
  sd_bullish_count :: nat
  sd_total_count :: nat
  sd_participation_pct :: real

definition classify_regime :: "breadth_data \<Rightarrow> sector_data \<Rightarrow> regime \<times> action" where
  "classify_regime breadth sectors =
     (let score = bd_score breadth;
          participation = sd_participation_pct sectors;
          regime_key =
            (if score > EXTREME_BULL then Regime_EXTREME_BULL
             else if score \<ge> STRONG_BULL then Regime_STRONG_BULL
             else if score \<ge> WEAK_BULL then Regime_WEAK_BULL
             else if score \<ge> NO_TRADE_LOW then Regime_NO_TRADE
             else if score \<ge> WEAK_BEAR then Regime_WEAK_BEAR
             else if score \<ge> STRONG_BEAR then Regime_STRONG_BEAR
             else Regime_EXTREME_BEAR)
      in (regime_key,
          \<lparr> regime_action = regime_key,
            narrow_leadership_warning = (participation < WEAK_PARTICIPATION \<and> score > 0) \<rparr>))"

section \<open>HistoryManager (analysis.py)\<close>

text \<open>
  The history file holds JSON. \<^verbatim>\<open>json.load\<close> hands back whatever JSON value the file
  holds: a list for an array, a dict for an object, and so on.
\<close>

datatype json =
  JNull | JBool bool | JNum real | JStr string | JArr "json list" | JObj "(string \<times> json) list"

text \<open>
  The states of the backing file that \<^verbatim>\<open>load_history\<close> distinguishes: no file; a path
  that cannot be examined, where \<^verbatim>\<open>Path.exists()\<close> re-raises the error of \<^verbatim>\<open>stat\<close>
  (\<^verbatim>\<open>PermissionError\<close> on a directory that may not be searched, a name that is too
  long: any \<^verbatim>\<open>OSError\<close> other than the four that mean the file is not there); a file
  on which \<^verbatim>\<open>open\<close> or \<^verbatim>\<open>json.load\<close> raises (it cannot be read, or its contents are
  not JSON); a file whose contents are the JSON text of a value.
\<close>

datatype file_state = Absent | Unreachable | Unparsable | Holds json

text \<open>\<^verbatim>\<open>self.filepath.exists()\<close>, which \<^verbatim>\<open>load_history\<close> calls outside its \<^verbatim>\<open>try\<close>.\<close>

fun path_exists :: "file_state \<Rightarrow> error + bool" where
  "path_exists Absent = Inr False"
| "path_exists Unreachable = Inl OSError"
| "path_exists Unparsable = Inr True"
| "path_exists (Holds v) = Inr True"

text \<open>The block \<^verbatim>\<open>with open(self.filepath, 'r') as f: return json.load(f)\<close>.\<close>

fun read_json :: "file_state \<Rightarrow> error + json" where
  "read_json Absent = Inl FileNotFoundError"
| "read_json Unreachable = Inl OSError"
| "read_json Unparsable = Inl JSONDecodeError"
| "read_json (Holds v) = Inr v"

text \<open>
  The bare \<^verbatim>\<open>except:\<close> turns every exception of the block into the empty list; an
  exception of the existence test propagates.
\<close>

definition load_history :: "file_state \<Rightarrow> error + json" where
  "load_history fs =
     (case path_exists fs of
        Inl e \<Rightarrow> Inl e
      | Inr found \<Rightarrow>
          (if found then
             (case read_json fs of Inr v \<Rightarrow> Inr v | Inl e \<Rightarrow> Inr (JArr []))
           else Inr (JArr [])))"

fun is_list :: "json \<Rightarrow> bool" where
  "is_list (JArr xs) = True"
| "is_list v = False"

text \<open>
  A well-formed history is a list of records with the three keys that \<^verbatim>\<open>save_score\<close>
  writes. The operations below are modelled on such lists: their argument \<open>history\<close> is
  what \<^verbatim>\<open>self.load_history()\<close> returned, and the result of \<open>save_score\<close> is the list
  it dumps back into the file.
\<close>

record history_record =
  h_date :: string
  h_score :: real
  h_regime :: regime

text \<open>
  The \<^verbatim>\<open>date\<close> argument is a \<^verbatim>\<open>datetime\<close>; it is represented by the text
  \<^verbatim>\<open>strftime('%Y-%m-%d')\<close> yields from it and the time of day, which nothing reads.
\<close>

record datetime =
  calendar_day :: string
  time_of_day :: nat

definition strftime_ymd :: "datetime \<Rightarrow> string" where
  "strftime_ymd d = calendar_day d"

definition save_score :: "history_record list \<Rightarrow> datetime \<Rightarrow> real \<Rightarrow> regime \<Rightarrow> history_record list" where
  "save_score history d score regime =
     (let today_str = strftime_ymd d;
          history1 = filter (\<lambda>h. h_date h \<noteq> today_str) history;
          history2 = history1 @ [\<lparr> h_date = today_str, h_score = score, h_regime = regime \<rparr>]
      in last_n HISTORY_DAYS history2)"

datatype divergence_msg =
  Insufficient_data | Distribution_warning | Accumulation_signal | No_divergence

text \<open>\<^verbatim>\<open>all(scores[i] > scores[i+1] for i in range(len(scores)-1))\<close> and its mirror.\<close>

definition all_decreasing :: "real list \<Rightarrow> bool" where
  "all_decreasing scores = list_all (\<lambda>i. scores ! i > scores ! (i + 1)) [0 ..< length scores - 1]"

definition all_increasing :: "real list \<Rightarrow> bool" where
  "all_increasing scores = list_all (\<lambda>i. scores ! i < scores ! (i + 1)) [0 ..< length scores - 1]"

definition detect_divergence :: "history_record list \<Rightarrow> real \<Rightarrow> string option \<times> divergence_msg" where
  "detect_divergence history current_score =
     (if length history < 3 then (None, Insufficient_data)
      else
        (let recent = last_n 3 history;
             scores = map h_score recent
         in if current_score > 0 \<and> all_decreasing scores then (Some ''bearish'', Distribution_warning)
            else if current_score < 0 \<and> all_increasing scores then (Some ''bullish'', Accumulation_signal)
            else (None, No_divergence)))"

section \<open>AdvancedAnalysis (advanced_analysis.py)\<close>

text \<open>
  \<^verbatim>\<open>AdvancedAnalysis\<close> is handed the frame as the fetcher built it. A frame built from
  at least one quote has the quote columns. A frame with no rows is of two kinds: with
  the columns (rows filtered away), or without any column, which is what
  \<^verbatim>\<open>pd.DataFrame(results)\<close> is when \<^verbatim>\<open>fetch_all\<close> fetched nothing. Reading a column of
  the latter raises \<^verbatim>\<open>KeyError\<close>.
\<close>

datatype frame = No_columns | Table "quote list"

fun frame_len :: "frame \<Rightarrow> nat" where
  "frame_len No_columns = 0"
| "frame_len (Table rows) = length rows"

text \<open>\<^verbatim>\<open>df[name]\<close>, the column as the list of its values.\<close>

fun column :: "frame \<Rightarrow> (quote \<Rightarrow> 'a) \<Rightarrow> error + 'a list" where
  "column No_columns field = Inl KeyError"
| "column (Table rows) field = Inr (map field rows)"

datatype temperature_status = OVERHEATED | HOT | WARM | NEUTRAL | COOL | COLD

record temperature =
  t_temperature :: real
  t_status :: temperature_status
  t_breadth :: real
  t_momentum :: real
  t_volume :: real

definition calculate_market_temperature :: "tie_rule \<Rightarrow> frame \<Rightarrow> error + temperature" where
  "calculate_market_temperature ties frame =
     (case column frame pct_change of
        Inl e \<Rightarrow> Inl e
      | Inr changes \<Rightarrow>
          (case true_div (count_rows (\<lambda>c. c > 0) changes) (frame_len frame) of
             Inl e \<Rightarrow> Inl e
           | Inr up_frac \<Rightarrow>
               (case column frame volume_ratio of
                  Inl e \<Rightarrow> Inl e
                | Inr vol_ratios \<Rightarrow>
                    (let up_pct = up_frac * 40;
                         avg_change = mean changes;
                         momentum_score = min (max ((avg_change + 2) / 4 * 30) 0) 30;
                         avg_vol_ratio = mean vol_ratios;
                         volume_score = min (max ((avg_vol_ratio - 0.5) / 1.5 * 30) 0) 30;
                         temp = up_pct + momentum_score + volume_score;
                         status =
                           (if temp > 80 then OVERHEATED
                            else if temp > 60 then HOT
                            else if temp > 40 then WARM
                            else if temp > 30 then NEUTRAL
                            else if temp > 20 then COOL
                            else COLD)
                     in Inr \<lparr> t_temperature = py_round ties temp 1,
                              t_status = status,
                              t_breadth = py_round ties up_pct 1,
                              t_momentum = py_round ties momentum_score 1,
                              t_volume = py_round ties volume_score 1 \<rparr>))))"

record magnitude_stats =
  ms_explosive_up :: nat
  ms_explosive_down :: nat

definition calculate_magnitude_stats :: "frame \<Rightarrow> error + magnitude_stats" where
  "calculate_magnitude_stats frame =
     (case column frame pct_change of
        Inl e \<Rightarrow> Inl e
      | Inr changes \<Rightarrow>
          Inr \<lparr> ms_explosive_up = count_rows (\<lambda>c. c > 5) changes,
                ms_explosive_down = count_rows (\<lambda>c. c < - 5) changes \<rparr>)"

text \<open>The fields \<^verbatim>\<open>signal\<close> and \<^verbatim>\<open>action\<close> of the result are fixed texts per condition.\<close>

datatype condition = CAPITULATION | EUPHORIA | NORMAL

record sentiment =
  s_condition :: condition
  s_explosive_moves_pct :: real

definition detect_capitulation_or_euphoria :: "tie_rule \<Rightarrow> frame \<Rightarrow> error + sentiment" where
  "detect_capitulation_or_euphoria ties frame =
     (case calculate_magnitude_stats frame of
        Inl e \<Rightarrow> Inl e
      | Inr magnitude \<Rightarrow>
          (case true_div (ms_explosive_down magnitude) (frame_len frame) of
             Inl e \<Rightarrow> Inl e
           | Inr down_frac \<Rightarrow>
               (let explosive_down_pct = down_frac * 100
                in if explosive_down_pct > 15 then
                     Inr \<lparr> s_condition = CAPITULATION,
                           s_explosive_moves_pct = py_round ties explosive_down_pct 1 \<rparr>
                   else
                     (case true_div (ms_explosive_up magnitude) (frame_len frame) of
                        Inl e \<Rightarrow> Inl e
                      | Inr up_frac \<Rightarrow>
                          (let explosive_up_pct = up_frac * 100
                           in if explosive_up_pct > 15 then
                                Inr \<lparr> s_condition = EUPHORIA,
                                      s_explosive_moves_pct = py_round ties explosive_up_pct 1 \<rparr>
                              else
                                Inr \<lparr> s_condition = NORMAL, s_explosive_moves_pct = 0 \<rparr>)))))"

section \<open>calculate_fear_greed_index (app.py)\<close>




section \<open>The analysis run: load_data (app.py)\<close>

text \<open>
  The steps of \<^verbatim>\<open>load_data\<close> between the fetch and the session state: the gate on an
  empty frame, classification, the breadth score, the regime, and the write to the
  history. The sector snapshot that \<^verbatim>\<open>calculate_sector_breadth\<close> computes is a
  parameter, as is the history the file held before the run.
\<close>

record analysis_run =
  run_df :: "classified list"
  run_breadth_data :: breadth_data
  run_magnitude_data :: magnitude_data
  run_regime :: regime
  run_action :: action
  run_history :: "history_record list"

definition load_data ::
  "tie_rule \<Rightarrow> quote list \<Rightarrow> sector_data \<Rightarrow> history_record list \<Rightarrow> datetime
     \<Rightarrow> analysis_run option" where
  "load_data ties df sectors history now =
     (if df = [] then None
      else
        (let classified_df = classify_stocks df;
             breadth = calculate_breadth_score ties classified_df;
             magnitude = calculate_magnitude_analysis ties classified_df;
             (regime, act) = classify_regime breadth sectors
         in Some \<lparr> run_df = classified_df,
                   run_breadth_data = breadth,
                   run_magnitude_data = magnitude,
                   run_regime = regime,
                   run_action = act,
                   run_history = save_score history now (bd_score breadth) regime \<rparr>))"

section \<open>Sample rows\<close>

text \<open>A row with the given move and volume ratio, for evaluating the analysis on concrete tables.\<close>

abbreviation (input) mkq :: "real \<Rightarrow> real \<Rightarrow> quote" where
  "mkq p v \<equiv> \<lparr> symbol = ''X'', price = 100 + p, prev_close = 100, pct_change = p,
      volume = 1000, avg_volume = 1000, volume_ratio = v \<rparr>"

section \<open>Classifier: properties\<close>


lemma classify_stocks_map:
  "classify_stocks df =
     map (\<lambda>q. (q, first_match_category (pct_change q) (volume_ratio q))) df"
  by (auto simp: classify_stocks_def loc_assign_def first_match_category_def
      strong_bull_mask_def weak_bull_mask_def strong_bear_mask_def weak_bear_mask_def
      STRONG_MOVE_def VOLUME_MULTIPLIER_def)

text \<open>
  Claim C1. Every quote receives exactly one category, the one the first-match priority
  rule over strict comparisons gives: the classified frame has the rows of the input, in
  order, each paired with \<open>first_match_category\<close> of its move and volume ratio. A move
  of exactly \<open>STRONG_MOVE\<close> or \<open>- STRONG_MOVE\<close> is Neutral whatever the volume ratio, and
  two rows (of any two frames) with the same move and volume ratio get the same category.
\<close>

theorem classifier_first_match:
  "map fst (classify_stocks df) = df
   \<and> map snd (classify_stocks df) =
       map (\<lambda>q. first_match_category (pct_change q) (volume_ratio q)) df
   \<and> (\<forall>r \<in> set (classify_stocks df).
         pct_change (fst r) = STRONG_MOVE \<or> pct_change (fst r) = - STRONG_MOVE \<longrightarrow> snd r = Neutral)
   \<and> (\<forall>r \<in> set (classify_stocks df). \<forall>r' \<in> set (classify_stocks df').
         pct_change (fst r) = pct_change (fst r') \<and> volume_ratio (fst r) = volume_ratio (fst r')
         \<longrightarrow> snd r = snd r')"
  by (auto simp: classify_stocks_map comp_def first_match_category_def STRONG_MOVE_def)

text \<open>The theorem at a frame with one row on each side of every boundary.\<close>

theorem classifier_first_match_witness:
  "pct_change (mkq 2 3) = STRONG_MOVE
   \<and> classify_stocks [mkq 2 3] = [(mkq 2 3, Neutral)]
   \<and> map snd (classify_stocks [mkq 2 3, mkq 3 1.5, mkq 3 1, mkq (-2) 3, mkq (-3) 1.5, mkq (-3) 1])
      = [Neutral, Strong_Bull, Weak_Bull, Neutral, Strong_Bear, Weak_Bear]"
proof -
  let ?df = "[mkq 2 3, mkq 3 1.5, mkq 3 1, mkq (-2) 3, mkq (-3) 1.5, mkq (-3) 1]"
  have a: "map snd (classify_stocks ?df) = [Neutral, Strong_Bull, Weak_Bull, Neutral, Strong_Bear, Weak_Bear]"
    using classifier_first_match [of ?df ?df]
    by (simp add: first_match_category_def STRONG_MOVE_def VOLUME_MULTIPLIER_def)
  have "map fst (classify_stocks [mkq 2 3]) = [mkq 2 3]"
    and "map snd (classify_stocks [mkq 2 3]) = [Neutral]"
    using classifier_first_match [of "[mkq 2 3]" "[mkq 2 3]"]
    by (simp_all add: first_match_category_def STRONG_MOVE_def VOLUME_MULTIPLIER_def)
  then have b: "classify_stocks [mkq 2 3] = [(mkq 2 3, Neutral)]"
    by (metis zip_map_fst_snd zip_Cons_Cons zip_Nil)
  show ?thesis using a b by (simp add: STRONG_MOVE_def)
qed

section \<open>Rounding: properties\<close>

text \<open>Whatever the rule, the result is a multiple of \<open>10\<^sup>-\<^sup>n\<close> nearest to the argument.\<close>

lemma py_round_int:
  "\<exists>k. py_round ties x n = of_int k / 10 ^ n
       \<and> \<bar>of_int k - x * 10 ^ n\<bar> \<le> 1 / 2
       \<and> (\<forall>a. of_int a \<le> x * 10 ^ n \<longrightarrow> a \<le> k)
       \<and> (\<forall>b. x * 10 ^ n \<le> of_int b \<longrightarrow> k \<le> b)"
proof -
  define y where "y = x * 10 ^ n"
  define f where "f = \<lfloor>y\<rfloor>"
  define k where "k = (if y - of_int f < 1 / 2 then f
                       else if y - of_int f > 1 / 2 then f + 1
                       else if ties x n then f + 1 else f)"
  have fl: "of_int f \<le> y" "y < of_int f + 1" unfolding f_def by linarith+
  have 1: "py_round ties x n = of_int k / 10 ^ n"
    by (simp add: py_round_def Let_def k_def f_def y_def)
  have 2: "\<bar>of_int k - y\<bar> \<le> 1 / 2"
    using fl by (auto simp: k_def)
  have 3: "a \<le> k" if "of_int a \<le> y" for a
  proof -
    from that have "a \<le> f" by (simp add: f_def le_floor_iff)
    then show ?thesis by (auto simp: k_def)
  qed
  have 4: "k \<le> b" if "y \<le> of_int b" for b
  proof (cases "y = of_int b")
    case True
    then have "f = b" by (simp add: f_def)
    with True show ?thesis by (simp add: k_def)
  next
    case False
    with that have "y < of_int b" by simp
    then have "f < b" by (simp add: f_def floor_less_iff)
    then show ?thesis by (auto simp: k_def)
  qed
  from 1 2 3 4 show ?thesis unfolding y_def by blast
qed

lemma py_round_bounds:
  assumes "of_int a / 10 ^ n \<le> x" "x \<le> of_int b / 10 ^ n"
  shows "of_int a / 10 ^ n \<le> py_round ties x n \<and> py_round ties x n \<le> of_int b / 10 ^ n"
proof -
  obtain k where k: "py_round ties x n = of_int k / 10 ^ n"
    and lo: "\<forall>a. of_int a \<le> x * 10 ^ n \<longrightarrow> a \<le> k"
    and hi: "\<forall>b. x * 10 ^ n \<le> of_int b \<longrightarrow> k \<le> b"
    using py_round_int [of ties x n] by blast
  have "of_int a \<le> x * 10 ^ n" using assms(1) by (simp add: pos_divide_le_eq)
  with lo have 1: "a \<le> k" by blast
  have "x * 10 ^ n \<le> of_int b" using assms(2) by (simp add: pos_le_divide_eq)
  with hi have 2: "k \<le> b" by blast
  from 1 2 show ?thesis by (simp add: k divide_right_mono)
qed

lemma py_round_near: "\<bar>py_round ties x n - x\<bar> \<le> 1 / (2 * 10 ^ n)"
proof -
  obtain k where k: "py_round ties x n = of_int k / 10 ^ n"
    and near: "\<bar>of_int k - x * 10 ^ n\<bar> \<le> 1 / 2"
    using py_round_int [of ties x n] by blast
  have "\<bar>py_round ties x n - x\<bar> = \<bar>of_int k - x * 10 ^ n\<bar> / 10 ^ n"
    by (simp add: k field_simps abs_divide)
  also have "\<dots> \<le> (1 / 2) / 10 ^ n"
    by (rule divide_right_mono [OF near]) simp
  finally show ?thesis by simp
qed

lemma py_round_multiple: "py_round ties (of_int k / 10 ^ n) n = of_int k / 10 ^ n"
  using py_round_bounds [of k n "of_int k / 10 ^ n" k ties] by simp

lemma py_round_zero [simp]: "py_round ties 0 n = 0"
  using py_round_multiple [of ties 0 n] by simp

section \<open>Breadth score: properties\<close>

lemma value_counts_total:
  "value_counts df Strong_Bull + value_counts df Weak_Bull + value_counts df Neutral
   + value_counts df Weak_Bear + value_counts df Strong_Bear = length df"
proof (induction df)
  case Nil
  show ?case by (simp add: value_counts_def count_rows_def)
next
  case (Cons r df)
  then show ?case
    by (cases "snd r") (simp_all add: value_counts_def count_rows_def)
qed

lemma value_counts_all_neutral:
  "\<forall>r \<in> set df. snd r = Neutral \<Longrightarrow> c \<noteq> Neutral \<Longrightarrow> value_counts df c = 0"
  by (induction df) (auto simp: value_counts_def count_rows_def)

lemma weighted_score_eq:
  "weighted_score df =
     (if length df = 0 then 0
      else (2 * real (value_counts df Strong_Bull) + real (value_counts df Weak_Bull)
            - 2 * real (value_counts df Strong_Bear) - real (value_counts df Weak_Bear))
           / real (length df))"
  by (simp add: weighted_score_def Let_def)

lemma weighted_score_bounds: "- 2 \<le> weighted_score df \<and> weighted_score df \<le> 2"
proof (cases "length df = 0")
  case True
  then show ?thesis by (simp add: weighted_score_eq)
next
  case False
  then have pos: "0 < real (length df)" by simp
  have "real (length df) = real (value_counts df Strong_Bull) + real (value_counts df Weak_Bull)
      + real (value_counts df Neutral) + real (value_counts df Weak_Bear)
      + real (value_counts df Strong_Bear)"
    using value_counts_total [of df, symmetric] by simp
  then show ?thesis
    using False pos by (simp add: weighted_score_eq pos_le_divide_eq pos_divide_le_eq)
qed

lemma stored_score:
  "bd_score (calculate_breadth_score ties df) = py_round ties (weighted_score df) 3"
  by (simp add: calculate_breadth_score_def Let_def SCORE_DECIMALS_def)

lemma stored_score_bounds:
  "- 2 \<le> bd_score (calculate_breadth_score ties df)
   \<and> bd_score (calculate_breadth_score ties df) \<le> 2"
proof -
  have "of_int (- 2000) / 10 ^ 3 \<le> py_round ties (weighted_score df) 3
        \<and> py_round ties (weighted_score df) 3 \<le> of_int 2000 / 10 ^ 3"
    by (rule py_round_bounds) (use weighted_score_bounds [of df] in simp_all)
  then show ?thesis by (simp add: stored_score)
qed

lemma stored_score_multiple:
  "\<exists>k::int. bd_score (calculate_breadth_score ties df) = of_int k / 1000"
  using py_round_int [of ties "weighted_score df" 3] by (auto simp: stored_score)

text \<open>
  Claim C2, as stated, fails: the claim has the breadth score equal the weighted
  quotient, but the score \<open>calculate_breadth_score\<close> returns is that quotient rounded to
  three decimals. For one StrongBull row and two Neutral rows the quotient is
  \<open>(2\<cdot>1 + 1\<cdot>0 - 2\<cdot>0 - 1\<cdot>0) / 3 = 2/3\<close> and the returned score is \<open>0.667\<close>. (No tie
  occurs in the rounding, so the tie rule plays no part.)
\<close>

theorem breadth_score_not_quotient_counterexample:
  "classify_stocks [mkq 3 1.5, mkq 0 1, mkq 0 1]
     = [(mkq 3 1.5, Strong_Bull), (mkq 0 1, Neutral), (mkq 0 1, Neutral)]
   \<and> bd_score (calculate_breadth_score ties_to_even
        (classify_stocks [mkq 3 1.5, mkq 0 1, mkq 0 1])) = 0.667
   \<and> bd_score (calculate_breadth_score ties_to_even
        (classify_stocks [mkq 3 1.5, mkq 0 1, mkq 0 1]))
      \<noteq> (2 * 1 + 1 * 0 - 2 * 0 - 1 * 0) / 3"
  by (simp add: classify_stocks_map first_match_category_def STRONG_MOVE_def
      VOLUME_MULTIPLIER_def calculate_breadth_score_def weighted_score_def bull_bear_def
      value_counts_def count_rows_def Let_def SCORE_DECIMALS_def py_round_def)

text \<open>
  Claim C2, amended. For every classified frame, and whatever the floats do at a rounding
  tie, the breadth score of the snapshot is the quotient
  \<open>(2\<cdot>StrongBull + 1\<cdot>WeakBull - 2\<cdot>StrongBear - 1\<cdot>WeakBear) / total\<close>, taken as \<open>0\<close> when the
  total is \<open>0\<close>, rounded to three decimals: a multiple of \<open>0.001\<close> at most \<open>0.0005\<close>
  away from the quotient. The score lies in \<open>[-2, 2]\<close> and is exactly \<open>0\<close> for an
  all-Neutral frame and for the empty frame. The total of the snapshot is the sum of its
  five category counts and the number of rows, which is the number of quotes that were
  classified.
\<close>

theorem breadth_score_rounded_quotient:
  "(let n = (\<lambda>c. length (filter (\<lambda>r. snd r = c) df));
        quotient = (if length df = 0 then 0
                    else (2 * real (n Strong_Bull) + 1 * real (n Weak_Bull)
                          - 2 * real (n Strong_Bear) - 1 * real (n Weak_Bear)) / real (length df));
        snapshot = calculate_breadth_score ties df
    in bd_score snapshot = py_round ties quotient 3
       \<and> \<bar>bd_score snapshot - quotient\<bar> \<le> 0.0005
       \<and> (\<exists>k::int. bd_score snapshot = of_int k / 1000)
       \<and> - 2 \<le> quotient \<and> quotient \<le> 2
       \<and> - 2 \<le> bd_score snapshot \<and> bd_score snapshot \<le> 2
       \<and> ((\<forall>r \<in> set df. snd r = Neutral) \<longrightarrow> quotient = 0 \<and> bd_score snapshot = 0)
       \<and> bd_score (calculate_breadth_score ties []) = 0
       \<and> bd_total snapshot =
           bd_strong_bulls snapshot + bd_weak_bulls snapshot + bd_neutral snapshot
           + bd_weak_bears snapshot + bd_strong_bears snapshot
       \<and> bd_total snapshot = length df
       \<and> bd_total (calculate_breadth_score ties (classify_stocks quotes)) = length quotes)"
proof -
  define quotient where "quotient =
         (if length df = 0 then 0
          else (2 * real (length (filter (\<lambda>r. snd r = Strong_Bull) df))
                + 1 * real (length (filter (\<lambda>r. snd r = Weak_Bull) df))
                - 2 * real (length (filter (\<lambda>r. snd r = Strong_Bear) df))
                - 1 * real (length (filter (\<lambda>r. snd r = Weak_Bear) df))) / real (length df))"
  have w: "weighted_score df = quotient"
    unfolding quotient_def by (simp add: weighted_score_eq value_counts_def count_rows_def)
  have 1: "bd_score (calculate_breadth_score ties df) = py_round ties quotient 3"
    by (simp add: stored_score w)
  have 2: "\<bar>bd_score (calculate_breadth_score ties df) - quotient\<bar> \<le> 0.0005"
    using py_round_near [of ties quotient 3] by (simp add: 1)
  have 3: "\<exists>k::int. bd_score (calculate_breadth_score ties df) = of_int k / 1000"
    by (rule stored_score_multiple)
  have 4: "- 2 \<le> quotient \<and> quotient \<le> 2"
    using weighted_score_bounds [of df] by (simp add: w)
  have 5: "- 2 \<le> bd_score (calculate_breadth_score ties df)
           \<and> bd_score (calculate_breadth_score ties df) \<le> 2"
    by (rule stored_score_bounds)
  have 6: "quotient = 0 \<and> bd_score (calculate_breadth_score ties df) = 0"
    if "\<forall>r \<in> set df. snd r = Neutral"
  proof -
    have "weighted_score df = 0"
      using that by (simp add: weighted_score_eq value_counts_all_neutral)
    then show ?thesis using w by (simp add: stored_score)
  qed
  have 7: "bd_score (calculate_breadth_score ties []) = 0"
    by (simp add: stored_score weighted_score_eq)
  have 8: "bd_total (calculate_breadth_score ties df) =
      bd_strong_bulls (calculate_breadth_score ties df)
      + bd_weak_bulls (calculate_breadth_score ties df)
      + bd_neutral (calculate_breadth_score ties df)
      + bd_weak_bears (calculate_breadth_score ties df)
      + bd_strong_bears (calculate_breadth_score ties df)"
    using value_counts_total [of df] by (simp add: calculate_breadth_score_def Let_def)
  have 9: "bd_total (calculate_breadth_score ties df) = length df" for df
    by (simp add: calculate_breadth_score_def Let_def)
  have 10: "length (classify_stocks quotes) = length quotes"
    by (simp add: classify_stocks_map)
  show ?thesis
    unfolding Let_def quotient_def [symmetric]
    using 1 2 3 4 5 6 7 8 9 [of df] 9 [of "classify_stocks quotes"] 10
    by (simp del: One_nat_def)
qed

text \<open>The theorem at an all-Neutral frame of two rows.\<close>

theorem breadth_score_rounded_quotient_witness:
  "snd (mkq 1 1, Neutral) = Neutral \<and> snd (mkq 0 2, Neutral) = Neutral
   \<and> bd_score (calculate_breadth_score ties_to_even [(mkq 1 1, Neutral), (mkq 0 2, Neutral)]) = 0
   \<and> bd_total (calculate_breadth_score ties_to_even [(mkq 1 1, Neutral), (mkq 0 2, Neutral)]) = 2"
  using breadth_score_rounded_quotient
    [of "[(mkq 1 1, Neutral), (mkq 0 2, Neutral)]" ties_to_even "[]"]
  by (simp add: Let_def)

section \<open>Regime: properties\<close>

lemma six_four_score:
  assumes "length df = 10" "value_counts df Strong_Bull = 6" "value_counts df Weak_Bear = 4"
  shows "weighted_score df = 0.8"
proof -
  have "value_counts df Weak_Bull = 0 \<and> value_counts df Strong_Bear = 0"
    using value_counts_total [of df] assms by simp
  then show ?thesis using assms by (simp add: weighted_score_eq)
qed

text \<open>
  Claim C3. The regime is a function of the score alone, whatever the rest of the
  snapshot and the sector data: scanning the boundaries from the top, a score above
  \<open>0.8\<close> is ExtremeBull, a score in \<open>[0.4, 0.8]\<close> StrongBull, in \<open>[0.15, 0.4)\<close> WeakBull,
  in \<open>[-0.15, 0.15)\<close> NoTrade, in \<open>[-0.4, -0.15)\<close> WeakBear, in \<open>[-0.8, -0.4)\<close> StrongBear
  and below \<open>-0.8\<close> ExtremeBear. The seven bands cover the line and are disjoint, so
  exactly one regime results. A frame of 10 rows, 6 of them StrongBull and 4 WeakBear,
  scores \<open>(6\<cdot>2 - 4\<cdot>1) / 10 = 0.8\<close>, which is not above \<open>0.8\<close>: its regime is StrongBull.
\<close>

theorem regime_bands:
  "(let s = bd_score breadth; r = fst (classify_regime breadth sectors)
    in (s > 0.8 \<longrightarrow> r = Regime_EXTREME_BULL)
       \<and> (0.4 \<le> s \<and> s \<le> 0.8 \<longrightarrow> r = Regime_STRONG_BULL)
       \<and> (0.15 \<le> s \<and> s < 0.4 \<longrightarrow> r = Regime_WEAK_BULL)
       \<and> (- 0.15 \<le> s \<and> s < 0.15 \<longrightarrow> r = Regime_NO_TRADE)
       \<and> (- 0.4 \<le> s \<and> s < - 0.15 \<longrightarrow> r = Regime_WEAK_BEAR)
       \<and> (- 0.8 \<le> s \<and> s < - 0.4 \<longrightarrow> r = Regime_STRONG_BEAR)
       \<and> (s < - 0.8 \<longrightarrow> r = Regime_EXTREME_BEAR))
   \<and> (bd_score breadth = bd_score breadth'
        \<longrightarrow> fst (classify_regime breadth sectors) = fst (classify_regime breadth' sectors'))
   \<and> (length df = 10 \<and> value_counts df Strong_Bull = 6 \<and> value_counts df Weak_Bear = 4
        \<longrightarrow> weighted_score df = (6 * 2 - 4 * 1) / 10
            \<and> bd_score (calculate_breadth_score ties df) = 0.8
            \<and> fst (classify_regime (calculate_breadth_score ties df) sectors) = Regime_STRONG_BULL)"
proof -
  have bands: "(let s = bd_score breadth; r = fst (classify_regime breadth sectors)
    in (s > 0.8 \<longrightarrow> r = Regime_EXTREME_BULL)
       \<and> (0.4 \<le> s \<and> s \<le> 0.8 \<longrightarrow> r = Regime_STRONG_BULL)
       \<and> (0.15 \<le> s \<and> s < 0.4 \<longrightarrow> r = Regime_WEAK_BULL)
       \<and> (- 0.15 \<le> s \<and> s < 0.15 \<longrightarrow> r = Regime_NO_TRADE)
       \<and> (- 0.4 \<le> s \<and> s < - 0.15 \<longrightarrow> r = Regime_WEAK_BEAR)
       \<and> (- 0.8 \<le> s \<and> s < - 0.4 \<longrightarrow> r = Regime_STRONG_BEAR)
       \<and> (s < - 0.8 \<longrightarrow> r = Regime_EXTREME_BEAR))"
    by (simp add: classify_regime_def Let_def EXTREME_BULL_def STRONG_BULL_def WEAK_BULL_def
        NO_TRADE_LOW_def WEAK_BEAR_def STRONG_BEAR_def)
  have pure: "bd_score breadth = bd_score breadth'
        \<longrightarrow> fst (classify_regime breadth sectors) = fst (classify_regime breadth' sectors')"
    by (simp add: classify_regime_def Let_def)
  have scenario: "weighted_score df = (6 * 2 - 4 * 1) / 10
            \<and> bd_score (calculate_breadth_score ties df) = 0.8
            \<and> fst (classify_regime (calculate_breadth_score ties df) sectors) = Regime_STRONG_BULL"
    if h: "length df = 10 \<and> value_counts df Strong_Bull = 6 \<and> value_counts df Weak_Bear = 4"
  proof -
    have w: "weighted_score df = 0.8" using h by (simp add: six_four_score)
    have "py_round ties (of_int 800 / 10 ^ 3) 3 = of_int 800 / 10 ^ 3" by (rule py_round_multiple)
    then have r: "py_round ties 0.8 3 = 0.8" by simp
    have "bd_score (calculate_breadth_score ties df) = py_round ties (weighted_score df) 3"
      by (simp add: calculate_breadth_score_def Let_def SCORE_DECIMALS_def)
    also have "\<dots> = py_round ties 0.8 3" by (simp only: w)
    also have "\<dots> = 0.8" by (fact r)
    finally have s: "bd_score (calculate_breadth_score ties df) = 0.8" .
    have "fst (classify_regime (calculate_breadth_score ties df) sectors) = Regime_STRONG_BULL"
      by (simp add: classify_regime_def Let_def s EXTREME_BULL_def STRONG_BULL_def)
    with w s show ?thesis by simp
  qed
  from bands pure scenario show ?thesis by blast
qed

text \<open>
  The theorem at the scenario of the specification: six quotes of \<open>+3%\<close> at volume ratio
  \<open>1.5\<close> and four of \<open>-3%\<close> at volume ratio \<open>0.5\<close>, classified by \<open>classify_stocks\<close>.
\<close>

theorem regime_bands_witness:
  "length (classify_stocks [mkq 3 1.5, mkq 3 1.5, mkq 3 1.5, mkq 3 1.5, mkq 3 1.5, mkq 3 1.5,
                             mkq (-3) 0.5, mkq (-3) 0.5, mkq (-3) 0.5, mkq (-3) 0.5]) = 10
   \<and> value_counts (classify_stocks [mkq 3 1.5, mkq 3 1.5, mkq 3 1.5, mkq 3 1.5, mkq 3 1.5, mkq 3 1.5,
                             mkq (-3) 0.5, mkq (-3) 0.5, mkq (-3) 0.5, mkq (-3) 0.5]) Strong_Bull = 6
   \<and> value_counts (classify_stocks [mkq 3 1.5, mkq 3 1.5, mkq 3 1.5, mkq 3 1.5, mkq 3 1.5, mkq 3 1.5,
                             mkq (-3) 0.5, mkq (-3) 0.5, mkq (-3) 0.5, mkq (-3) 0.5]) Weak_Bear = 4
   \<and> bd_score (calculate_breadth_score ties_to_even
        (classify_stocks [mkq 3 1.5, mkq 3 1.5, mkq 3 1.5, mkq 3 1.5, mkq 3 1.5, mkq 3 1.5,
                             mkq (-3) 0.5, mkq (-3) 0.5, mkq (-3) 0.5, mkq (-3) 0.5])) = 0.8
   \<and> fst (classify_regime (calculate_breadth_score ties_to_even
        (classify_stocks [mkq 3 1.5, mkq 3 1.5, mkq 3 1.5, mkq 3 1.5, mkq 3 1.5, mkq 3 1.5,
                             mkq (-3) 0.5, mkq (-3) 0.5, mkq (-3) 0.5, mkq (-3) 0.5]))
        \<lparr> sd_bullish_count = 3, sd_total_count = 4, sd_participation_pct = 75 \<rparr>)
      = Regime_STRONG_BULL"
proof -
  let ?df = "classify_stocks [mkq 3 1.5, mkq 3 1.5, mkq 3 1.5, mkq 3 1.5, mkq 3 1.5, mkq 3 1.5,
                             mkq (-3) 0.5, mkq (-3) 0.5, mkq (-3) 0.5, mkq (-3) 0.5]"
  have h: "length ?df = 10 \<and> value_counts ?df Strong_Bull = 6 \<and> value_counts ?df Weak_Bear = 4"
    by (simp add: classify_stocks_map first_match_category_def STRONG_MOVE_def
        VOLUME_MULTIPLIER_def value_counts_def count_rows_def)
  show ?thesis
    using h regime_bands [where df = ?df and ties = ties_to_even
        and sectors = "\<lparr> sd_bullish_count = 3, sd_total_count = 4, sd_participation_pct = 75 \<rparr>"
        and breadth = "calculate_breadth_score ties_to_even ?df" and breadth' = "calculate_breadth_score ties_to_even ?df"
        and sectors' = "\<lparr> sd_bullish_count = 3, sd_total_count = 4, sd_participation_pct = 75 \<rparr>"]
    by blast
qed

section \<open>Magnitude buckets: properties\<close>

text \<open>
  Claim C4. The claim asks that each row with a move of at least \<open>STRONG_MOVE\<close> in
  absolute value be counted by exactly one bucket of its direction, and that \<open>-x\<close> fall
  in the mirror bucket of \<open>+x\<close>. The up masks are \<open>p > 5\<close>, \<open>3 \<le> p \<le> 5\<close>, \<open>2 \<le> p < 3\<close>;
  the down masks are \<open>p < -5\<close>, \<open>-5 < p \<le> -3\<close>, \<open>-3 < p \<le> -2\<close>. A move of exactly
  \<open>-5.0\<close> is counted by no down bucket, while \<open>+5.0\<close> is counted as strong up: evaluated
  here on the two one-row frames, for every tie rule.
\<close>

theorem magnitude_minus_five_uncounted:
  "md_explosive_down (calculate_magnitude_analysis ties [(mkq (- 5) 1, Neutral)]) = 0
   \<and> md_strong_down (calculate_magnitude_analysis ties [(mkq (- 5) 1, Neutral)]) = 0
   \<and> md_moderate_down (calculate_magnitude_analysis ties [(mkq (- 5) 1, Neutral)]) = 0
   \<and> md_explosive_up (calculate_magnitude_analysis ties [(mkq 5 1, Neutral)]) = 0
   \<and> md_strong_up (calculate_magnitude_analysis ties [(mkq 5 1, Neutral)]) = 1
   \<and> md_moderate_up (calculate_magnitude_analysis ties [(mkq 5 1, Neutral)]) = 0
   \<and> classify_stocks [mkq (- 5) 1] = [(mkq (- 5) 1, Weak_Bear)]"
  by (simp add: calculate_magnitude_analysis_def Let_def count_rows_def
      explosive_up_mask_def strong_up_mask_def moderate_up_mask_def
      explosive_down_mask_def strong_down_mask_def moderate_down_mask_def
      EXPLOSIVE_MOVE_def STRONG_EXPLOSIVE_def STRONG_MOVE_def
      classify_stocks_map first_match_category_def VOLUME_MULTIPLIER_def)

text \<open>Everywhere else the buckets do partition each direction and mirror each other.\<close>

lemma up_buckets_partition:
  "p \<ge> STRONG_MOVE \<Longrightarrow>
     (explosive_up_mask p \<and> \<not> strong_up_mask p \<and> \<not> moderate_up_mask p)
     \<or> (\<not> explosive_up_mask p \<and> strong_up_mask p \<and> \<not> moderate_up_mask p)
     \<or> (\<not> explosive_up_mask p \<and> \<not> strong_up_mask p \<and> moderate_up_mask p)"
  by (auto simp: explosive_up_mask_def strong_up_mask_def moderate_up_mask_def
      EXPLOSIVE_MOVE_def STRONG_EXPLOSIVE_def STRONG_MOVE_def)

lemma down_buckets_partition:
  "p \<le> - STRONG_MOVE \<Longrightarrow> p \<noteq> - EXPLOSIVE_MOVE \<Longrightarrow>
     (explosive_down_mask p \<and> \<not> strong_down_mask p \<and> \<not> moderate_down_mask p)
     \<or> (\<not> explosive_down_mask p \<and> strong_down_mask p \<and> \<not> moderate_down_mask p)
     \<or> (\<not> explosive_down_mask p \<and> \<not> strong_down_mask p \<and> moderate_down_mask p)"
  by (auto simp: explosive_down_mask_def strong_down_mask_def moderate_down_mask_def
      EXPLOSIVE_MOVE_def STRONG_EXPLOSIVE_def STRONG_MOVE_def)

lemma buckets_mirror:
  "p \<noteq> EXPLOSIVE_MOVE \<Longrightarrow>
     explosive_down_mask (- p) = explosive_up_mask p
     \<and> strong_down_mask (- p) = strong_up_mask p
     \<and> moderate_down_mask (- p) = moderate_up_mask p"
  by (auto simp: explosive_up_mask_def strong_up_mask_def moderate_up_mask_def
      explosive_down_mask_def strong_down_mask_def moderate_down_mask_def
      EXPLOSIVE_MOVE_def STRONG_EXPLOSIVE_def STRONG_MOVE_def)

section \<open>History: properties\<close>

lemma length_last_n: "0 < n \<Longrightarrow> length (last_n n xs) = min n (length xs)"
  by (auto simp: last_n_def)

lemma last_n_short: "length xs \<le> n \<Longrightarrow> last_n n xs = xs"
  by (simp add: last_n_def)

lemma last_n_snoc: "0 < n \<Longrightarrow> last_n n (xs @ [x]) = drop (Suc (length xs) - n) xs @ [x]"
  by (simp add: last_n_def)

lemma distinct_last_n: "distinct (map f xs) \<Longrightarrow> distinct (map f (last_n n xs))"
  by (simp add: last_n_def drop_map [symmetric] del: drop_map)

lemma length_filter_remove_key:
  "distinct (map f xs) \<Longrightarrow> a \<in> f ` set xs \<Longrightarrow> Suc (length (filter (\<lambda>x. f x \<noteq> a) xs)) = length xs"
proof (induction xs)
  case Nil
  then show ?case by simp
next
  case (Cons x xs)
  show ?case
  proof (cases "f x = a")
    case True
    with Cons.prems have "a \<notin> f ` set xs" by auto
    then have "filter (\<lambda>x. f x \<noteq> a) xs = xs" by (auto simp: filter_id_conv)
    with True show ?thesis by simp
  next
    case False
    with Cons show ?thesis by auto
  qed
qed

lemma filter_drop_filter:
  "filter P (drop k (filter P xs)) = drop k (filter P xs)"
  by (auto simp: filter_id_conv dest: in_set_dropD)

text \<open>
  Claim C5. For every history with pairwise distinct dates and at most \<open>HISTORY_DAYS\<close>
  records, the history \<open>save_score\<close> writes still has pairwise distinct dates and at
  most \<open>HISTORY_DAYS\<close> records; the new record is in it (it is the last one, and the only
  one of its date); when a record of that date was present before, the length is
  unchanged; and calling \<open>save_score\<close> again on the result with the same score and
  regime, at any time of the same calendar day, leaves the history as it is.
\<close>

theorem save_score_invariant:
  assumes "distinct (map h_date history)" and "length history \<le> HISTORY_DAYS"
  shows "(let history' = save_score history d score regime;
              new = \<lparr> h_date = strftime_ymd d, h_score = score, h_regime = regime \<rparr>
          in distinct (map h_date history')
             \<and> length history' \<le> HISTORY_DAYS
             \<and> new \<in> set history' \<and> last history' = new
             \<and> (\<forall>h \<in> set history'. h_date h = strftime_ymd d \<longrightarrow> h = new)
             \<and> (strftime_ymd d \<in> h_date ` set history \<longrightarrow> length history' = length history)
             \<and> (calendar_day d' = calendar_day d \<longrightarrow> save_score history' d' score regime = history'))"
proof -
  define today where "today = strftime_ymd d"
  define new where "new = \<lparr> h_date = today, h_score = score, h_regime = regime \<rparr>"
  define kept where "kept = filter (\<lambda>h. h_date h \<noteq> today) history"
  define k where "k = Suc (length kept) - HISTORY_DAYS"
  define history' where "history' = save_score history d score regime"
  have pos: "0 < HISTORY_DAYS" by (simp add: HISTORY_DAYS_def)
  have h': "history' = drop k kept @ [new]"
    by (simp add: history'_def save_score_def Let_def today_def new_def kept_def k_def
        last_n_snoc [OF pos])
  have kept_dates: "\<forall>h \<in> set kept. h_date h \<noteq> today" by (simp add: kept_def)
  have "distinct (map h_date kept)"
    using assms(1) by (simp add: kept_def distinct_map_filter)
  then have "distinct (map h_date (drop k kept))"
    by (simp add: drop_map [symmetric] del: drop_map)
  then have 1: "distinct (map h_date history')"
    using kept_dates by (auto simp: h' new_def dest: in_set_dropD)
  have 2: "length history' \<le> HISTORY_DAYS"
    using pos by (simp add: h' k_def)
  have 3: "new \<in> set history' \<and> last history' = new" by (simp add: h')
  have 4: "\<forall>h \<in> set history'. h_date h = today \<longrightarrow> h = new"
    using kept_dates by (auto simp: h' dest: in_set_dropD)
  have 5: "length history' = length history" if "today \<in> h_date ` set history"
  proof -
    have "Suc (length kept) = length history"
      unfolding kept_def using assms(1) that by (rule length_filter_remove_key)
    then show ?thesis using assms(2) by (simp add: h' k_def)
  qed
  have 6: "save_score history' d' score regime = history'" if "calendar_day d' = calendar_day d"
  proof -
    have t: "strftime_ymd d' = today" using that by (simp add: today_def strftime_ymd_def)
    have "filter (\<lambda>h. h_date h \<noteq> today) (drop k kept) = drop k kept"
      unfolding kept_def by (rule filter_drop_filter)
    then have "filter (\<lambda>h. h_date h \<noteq> today) history' = drop k kept"
      by (simp add: h' new_def)
    then have "save_score history' d' score regime = last_n HISTORY_DAYS (drop k kept @ [new])"
      by (simp add: save_score_def Let_def t new_def)
    also have "\<dots> = drop k kept @ [new]"
      using 2 by (intro last_n_short) (simp add: h')
    finally show ?thesis by (simp add: h')
  qed
  from 1 2 3 4 5 6 show ?thesis
    unfolding Let_def history'_def [symmetric] today_def [symmetric] new_def [symmetric]
    by blast
qed


text \<open>The theorem at a history of two days, the first of which is written again.\<close>

theorem save_score_invariant_witness:
  "distinct (map h_date
      [\<lparr> h_date = ''2024-01-01'', h_score = 0.5, h_regime = Regime_STRONG_BULL \<rparr>,
       \<lparr> h_date = ''2024-01-02'', h_score = 0.1, h_regime = Regime_NO_TRADE \<rparr>])
   \<and> length
      [\<lparr> h_date = ''2024-01-01'', h_score = 0.5, h_regime = Regime_STRONG_BULL \<rparr>,
       \<lparr> h_date = ''2024-01-02'', h_score = 0.1, h_regime = Regime_NO_TRADE \<rparr>] \<le> HISTORY_DAYS
   \<and> strftime_ymd \<lparr> calendar_day = ''2024-01-01'', time_of_day = 36000 \<rparr> \<in> h_date ` set
      [\<lparr> h_date = ''2024-01-01'', h_score = 0.5, h_regime = Regime_STRONG_BULL \<rparr>,
       \<lparr> h_date = ''2024-01-02'', h_score = 0.1, h_regime = Regime_NO_TRADE \<rparr>]
   \<and> calendar_day \<lparr> calendar_day = ''2024-01-01'', time_of_day = 39600 \<rparr>
       = calendar_day \<lparr> calendar_day = ''2024-01-01'', time_of_day = 36000 \<rparr>
   \<and> length (save_score
      [\<lparr> h_date = ''2024-01-01'', h_score = 0.5, h_regime = Regime_STRONG_BULL \<rparr>,
       \<lparr> h_date = ''2024-01-02'', h_score = 0.1, h_regime = Regime_NO_TRADE \<rparr>]
      \<lparr> calendar_day = ''2024-01-01'', time_of_day = 36000 \<rparr> 0.2 Regime_WEAK_BULL) = 2
   \<and> last (save_score
      [\<lparr> h_date = ''2024-01-01'', h_score = 0.5, h_regime = Regime_STRONG_BULL \<rparr>,
       \<lparr> h_date = ''2024-01-02'', h_score = 0.1, h_regime = Regime_NO_TRADE \<rparr>]
      \<lparr> calendar_day = ''2024-01-01'', time_of_day = 36000 \<rparr> 0.2 Regime_WEAK_BULL)
       = \<lparr> h_date = ''2024-01-01'', h_score = 0.2, h_regime = Regime_WEAK_BULL \<rparr>
   \<and> save_score (save_score
      [\<lparr> h_date = ''2024-01-01'', h_score = 0.5, h_regime = Regime_STRONG_BULL \<rparr>,
       \<lparr> h_date = ''2024-01-02'', h_score = 0.1, h_regime = Regime_NO_TRADE \<rparr>]
      \<lparr> calendar_day = ''2024-01-01'', time_of_day = 36000 \<rparr> 0.2 Regime_WEAK_BULL)
      \<lparr> calendar_day = ''2024-01-01'', time_of_day = 39600 \<rparr> 0.2 Regime_WEAK_BULL
     = save_score
      [\<lparr> h_date = ''2024-01-01'', h_score = 0.5, h_regime = Regime_STRONG_BULL \<rparr>,
       \<lparr> h_date = ''2024-01-02'', h_score = 0.1, h_regime = Regime_NO_TRADE \<rparr>]
      \<lparr> calendar_day = ''2024-01-01'', time_of_day = 36000 \<rparr> 0.2 Regime_WEAK_BULL"
proof -
  let ?H = "[\<lparr> h_date = ''2024-01-01'', h_score = 0.5, h_regime = Regime_STRONG_BULL \<rparr>,
       \<lparr> h_date = ''2024-01-02'', h_score = 0.1, h_regime = Regime_NO_TRADE \<rparr>]"
  let ?d = "\<lparr> calendar_day = ''2024-01-01'', time_of_day = 36000 \<rparr>"
  let ?d' = "\<lparr> calendar_day = ''2024-01-01'', time_of_day = 39600 \<rparr>"
  have a: "distinct (map h_date ?H)" by simp
  have b: "length ?H \<le> HISTORY_DAYS" by (simp add: HISTORY_DAYS_def)
  have c: "strftime_ymd ?d \<in> h_date ` set ?H" by (simp add: strftime_ymd_def)
  have e: "calendar_day ?d' = calendar_day ?d" by simp
  show ?thesis
    using a b c e
      save_score_invariant [OF a b, where d = ?d and d' = ?d' and score = "0.2"
        and regime = Regime_WEAK_BULL]
    by (simp add: Let_def strftime_ymd_def)
qed

section \<open>Divergence: properties\<close>

lemma last_three:
  assumes "3 \<le> length xs"
  shows "last_n 3 xs = [xs ! (length xs - 3), xs ! (length xs - 2), xs ! (length xs - 1)]"
proof -
  obtain n where n: "length xs = n + 3"
    using assms by (metis le_add_diff_inverse2)
  have "drop n xs = [xs ! n, xs ! (n + 1), xs ! (n + 2)]"
    using n by (auto simp: list_eq_iff_nth_eq less_Suc_eq numeral_3_eq_3)
  moreover have "length xs - 3 = n" "length xs - 2 = n + 1" "length xs - 1 = n + 2"
    using n by simp_all
  ultimately show ?thesis by (simp add: last_n_def)
qed

lemma all_decreasing_three: "all_decreasing [a, b, c] \<longleftrightarrow> a > b \<and> b > c"
  by (simp add: all_decreasing_def upt_rec)

lemma all_increasing_three: "all_increasing [a, b, c] \<longleftrightarrow> a < b \<and> b < c"
  by (simp add: all_increasing_def upt_rec)

lemma detect_divergence_three:
  assumes "3 \<le> length history"
  shows "detect_divergence history current =
     (let a = h_score (history ! (length history - 3));
          b = h_score (history ! (length history - 2));
          c = h_score (history ! (length history - 1))
      in if current > 0 \<and> a > b \<and> b > c then (Some ''bearish'', Distribution_warning)
         else if current < 0 \<and> a < b \<and> b < c then (Some ''bullish'', Accumulation_signal)
         else (None, No_divergence))"
  using assms
  by (simp add: detect_divergence_def last_three Let_def all_decreasing_three
      all_increasing_three)

text \<open>
  Claim C8. \<open>detect_divergence\<close> reports insufficient data exactly when the history has
  fewer than three records. Otherwise, with \<open>a\<close>, \<open>b\<close>, \<open>c\<close> the last three recorded
  scores in the order of the history, it reports bearish divergence if and only if the
  current score is positive and \<open>a > b > c\<close>, bullish divergence if and only if the current
  score is negative and \<open>a < b < c\<close>, and no divergence in every other case.
\<close>

theorem divergence_characterisation:
  "(detect_divergence history current = (None, Insufficient_data) \<longleftrightarrow> length history < 3)
   \<and> (3 \<le> length history \<longrightarrow>
        (let a = h_score (history ! (length history - 3));
             b = h_score (history ! (length history - 2));
             c = h_score (history ! (length history - 1))
         in (detect_divergence history current = (Some ''bearish'', Distribution_warning)
               \<longleftrightarrow> current > 0 \<and> a > b \<and> b > c)
            \<and> (detect_divergence history current = (Some ''bullish'', Accumulation_signal)
               \<longleftrightarrow> current < 0 \<and> a < b \<and> b < c)
            \<and> (detect_divergence history current = (None, No_divergence)
               \<longleftrightarrow> \<not> (current > 0 \<and> a > b \<and> b > c) \<and> \<not> (current < 0 \<and> a < b \<and> b < c))))"
proof (cases "length history < 3")
  case True
  then show ?thesis by (simp add: detect_divergence_def)
next
  case False
  then have h: "3 \<le> length history" by simp
  show ?thesis
    using h False by (auto simp: detect_divergence_three Let_def)
qed

text \<open>The theorem at a history of four days whose last three scores fall, with a positive current score.\<close>

theorem divergence_characterisation_witness:
  "3 \<le> length
      [\<lparr> h_date = ''2024-01-01'', h_score = 0.9, h_regime = Regime_EXTREME_BULL \<rparr>,
       \<lparr> h_date = ''2024-01-02'', h_score = 0.5, h_regime = Regime_STRONG_BULL \<rparr>,
       \<lparr> h_date = ''2024-01-03'', h_score = 0.3, h_regime = Regime_WEAK_BULL \<rparr>,
       \<lparr> h_date = ''2024-01-04'', h_score = 0.1, h_regime = Regime_NO_TRADE \<rparr>]
   \<and> detect_divergence
      [\<lparr> h_date = ''2024-01-01'', h_score = 0.9, h_regime = Regime_EXTREME_BULL \<rparr>,
       \<lparr> h_date = ''2024-01-02'', h_score = 0.5, h_regime = Regime_STRONG_BULL \<rparr>,
       \<lparr> h_date = ''2024-01-03'', h_score = 0.3, h_regime = Regime_WEAK_BULL \<rparr>,
       \<lparr> h_date = ''2024-01-04'', h_score = 0.1, h_regime = Regime_NO_TRADE \<rparr>] 0.05
     = (Some ''bearish'', Distribution_warning)"
proof -
  let ?H = "[\<lparr> h_date = ''2024-01-01'', h_score = 0.9, h_regime = Regime_EXTREME_BULL \<rparr>,
       \<lparr> h_date = ''2024-01-02'', h_score = 0.5, h_regime = Regime_STRONG_BULL \<rparr>,
       \<lparr> h_date = ''2024-01-03'', h_score = 0.3, h_regime = Regime_WEAK_BULL \<rparr>,
       \<lparr> h_date = ''2024-01-04'', h_score = 0.1, h_regime = Regime_NO_TRADE \<rparr>]"
  have h: "3 \<le> length ?H" by simp
  show ?thesis
    using h divergence_characterisation [of ?H "0.05"]
    by (simp add: Let_def)
qed

section \<open>Loading the history: properties\<close>

text \<open>
  Claim C10, as stated, fails: the claim has \<open>load_history\<close> return a list for every state
  of the backing file, but a file holding a JSON value that is not an array, such as the
  object \<^verbatim>\<open>{}\<close>, is parsed without error and returned as it is.
\<close>

theorem load_history_non_list_counterexample:
  "load_history (Holds (JObj [])) = Inr (JObj []) \<and> \<not> is_list (JObj [])"
  by (simp add: load_history_def)

text \<open>
  Claim C10, amended. \<open>load_history\<close> returns the empty list when the file does not exist
  and when it exists but cannot be opened or parsed as JSON. When the contents parse, it
  returns the parsed JSON value unchanged, which is a list exactly when the file holds a
  JSON array. It raises in one state only: when the existence test itself fails, because
  \<^verbatim>\<open>Path.exists()\<close> is called outside the \<^verbatim>\<open>try\<close> and lets the error of \<^verbatim>\<open>stat\<close>
  through.
\<close>

theorem load_history_outcomes:
  "load_history Absent = Inr (JArr [])
   \<and> load_history Unparsable = Inr (JArr [])
   \<and> load_history (Holds v) = Inr v
   \<and> (is_list v \<longrightarrow> (\<exists>xs. load_history (Holds v) = Inr (JArr xs)))
   \<and> (\<not> is_list v \<longrightarrow> (\<forall>xs. load_history (Holds v) \<noteq> Inr (JArr xs)))
   \<and> load_history Unreachable = Inl OSError
   \<and> ((\<exists>e. load_history fs = Inl e) \<longleftrightarrow> fs = Unreachable)"
proof -
  have 1: "is_list v \<longrightarrow> (\<exists>xs. load_history (Holds v) = Inr (JArr xs))"
    by (cases v) (simp_all add: load_history_def)
  have 2: "\<not> is_list v \<longrightarrow> (\<forall>xs. load_history (Holds v) \<noteq> Inr (JArr xs))"
    by (cases v) (simp_all add: load_history_def)
  have 3: "(\<exists>e. load_history fs = Inl e) \<longleftrightarrow> fs = Unreachable"
    by (cases fs) (simp_all add: load_history_def)
  from 1 2 3 show ?thesis by (simp add: load_history_def)
qed

text \<open>The theorem at a file holding an array of one record, and at a file holding an object.\<close>

theorem load_history_outcomes_witness:
  "is_list (JArr [JObj [(''date'', JStr ''2024-01-01''), (''score'', JNum 0.5),
                        (''regime'', JStr ''STRONG BULL'')]])
   \<and> load_history (Holds (JArr [JObj [(''date'', JStr ''2024-01-01''), (''score'', JNum 0.5),
                        (''regime'', JStr ''STRONG BULL'')]]))
     = Inr (JArr [JObj [(''date'', JStr ''2024-01-01''), (''score'', JNum 0.5),
                        (''regime'', JStr ''STRONG BULL'')]])
   \<and> \<not> is_list (JObj [])
   \<and> load_history (Holds (JObj [])) \<noteq> Inr (JArr [])
   \<and> load_history Unreachable = Inl OSError"
  using load_history_outcomes [of
      "JArr [JObj [(''date'', JStr ''2024-01-01''), (''score'', JNum 0.5),
                   (''regime'', JStr ''STRONG BULL'')]]" Unreachable]
    load_history_outcomes [of "JObj []" Unreachable]
  by simp

section \<open>Rounding in the snapshot: properties\<close>

text \<open>
  Claim C6, as stated, fails: the claim has the snapshot store the unrounded values, but
  \<open>calculate_breadth_score\<close> rounds while it builds the snapshot. For one StrongBull,
  three WeakBear and two Neutral rows the computed score is \<open>-1/6\<close> and the stored score
  \<open>-0.167\<close>; the computed bull/bear ratio is \<open>1/3\<close> and the stored one \<open>0.33\<close>. (No tie
  occurs in either rounding, so the tie rule plays no part.)
\<close>

theorem stored_score_rounded_counterexample:
  "weighted_score (classify_stocks
      [mkq 3 1.5, mkq (- 3) 0.5, mkq (- 3) 0.5, mkq (- 3) 0.5, mkq 0 1, mkq 0 1]) = - 1 / 6
   \<and> bd_score (calculate_breadth_score ties_to_even (classify_stocks
      [mkq 3 1.5, mkq (- 3) 0.5, mkq (- 3) 0.5, mkq (- 3) 0.5, mkq 0 1, mkq 0 1])) = - 0.167
   \<and> bd_score (calculate_breadth_score ties_to_even (classify_stocks
      [mkq 3 1.5, mkq (- 3) 0.5, mkq (- 3) 0.5, mkq (- 3) 0.5, mkq 0 1, mkq 0 1]))
     \<noteq> weighted_score (classify_stocks
      [mkq 3 1.5, mkq (- 3) 0.5, mkq (- 3) 0.5, mkq (- 3) 0.5, mkq 0 1, mkq 0 1])
   \<and> bull_bear (classify_stocks
      [mkq 3 1.5, mkq (- 3) 0.5, mkq (- 3) 0.5, mkq (- 3) 0.5, mkq 0 1, mkq 0 1]) = Finite (1 / 3)
   \<and> bd_bull_bear_ratio (calculate_breadth_score ties_to_even (classify_stocks
      [mkq 3 1.5, mkq (- 3) 0.5, mkq (- 3) 0.5, mkq (- 3) 0.5, mkq 0 1, mkq 0 1])) = Finite 0.33"
  by (simp add: classify_stocks_map first_match_category_def STRONG_MOVE_def
      VOLUME_MULTIPLIER_def calculate_breadth_score_def weighted_score_def bull_bear_def
      value_counts_def count_rows_def Let_def SCORE_DECIMALS_def RATIO_DECIMALS_def
      py_round_def)

lemma last_save_score:
  "last (save_score history d score regime)
     = \<lparr> h_date = strftime_ymd d, h_score = score, h_regime = regime \<rparr>"
  by (simp add: save_score_def Let_def last_n_snoc HISTORY_DAYS_def)

lemma classify_regime_score_only:
  "bd_score b = bd_score b' \<Longrightarrow> fst (classify_regime b s) = fst (classify_regime b' s')"
  by (simp add: classify_regime_def Let_def)

lemma stored_ratio:
  "bd_bull_bear_ratio (calculate_breadth_score ties df) = round_ratio ties (bull_bear df) 2"
  by (simp add: calculate_breadth_score_def Let_def RATIO_DECIMALS_def)

text \<open>
  Claim C6, amended. Rounding happens when the snapshot is built, not at presentation
  time. For every classified frame, and whatever the floats do at a rounding tie, the
  stored score is the computed score rounded to three decimals (a multiple of \<open>0.001\<close>
  at most \<open>0.0005\<close> away from it), and the stored bull/bear ratio is the computed ratio
  rounded to two decimals (a multiple of \<open>0.01\<close> at most \<open>0.005\<close> away from it, and
  infinite when the computed ratio is). In a run on a non-empty table the regime is
  classified from the stored, rounded score (any snapshot with that score field gives the
  same regime), and the record written to the history carries that same stored score.
\<close>

theorem rounding_at_snapshot:
  "bd_score (calculate_breadth_score ties df) = py_round ties (weighted_score df) 3
   \<and> \<bar>bd_score (calculate_breadth_score ties df) - weighted_score df\<bar> \<le> 0.0005
   \<and> (\<exists>k::int. bd_score (calculate_breadth_score ties df) = of_int k / 1000)
   \<and> bd_bull_bear_ratio (calculate_breadth_score ties df) = round_ratio ties (bull_bear df) 2
   \<and> (bull_bear df = Infinite \<longrightarrow> bd_bull_bear_ratio (calculate_breadth_score ties df) = Infinite)
   \<and> (\<forall>r. bull_bear df = Finite r \<longrightarrow>
         (\<exists>k::int. bd_bull_bear_ratio (calculate_breadth_score ties df) = Finite (of_int k / 100)
                   \<and> \<bar>of_int k / 100 - r\<bar> \<le> 0.005))
   \<and> (quotes \<noteq> [] \<longrightarrow>
        (\<exists>run. load_data ties quotes sectors history now = Some run
           \<and> run_breadth_data run = calculate_breadth_score ties (classify_stocks quotes)
           \<and> bd_score (run_breadth_data run)
               = py_round ties (weighted_score (classify_stocks quotes)) 3
           \<and> run_regime run = fst (classify_regime (run_breadth_data run) sectors)
           \<and> run_regime run =
               fst (classify_regime (b\<lparr> bd_score := bd_score (run_breadth_data run) \<rparr>) sectors)
           \<and> last (run_history run) =
               \<lparr> h_date = strftime_ymd now,
                 h_score = bd_score (run_breadth_data run),
                 h_regime = run_regime run \<rparr>))"
proof -
  have near: "\<bar>bd_score (calculate_breadth_score ties df) - weighted_score df\<bar> \<le> 0.0005"
    using py_round_near [of ties "weighted_score df" 3] by (simp add: stored_score)
  have inf: "bd_bull_bear_ratio (calculate_breadth_score ties df) = Infinite"
    if "bull_bear df = Infinite"
    using that by (simp add: stored_ratio)
  have fin: "\<exists>k::int. bd_bull_bear_ratio (calculate_breadth_score ties df) = Finite (of_int k / 100)
                   \<and> \<bar>of_int k / 100 - r\<bar> \<le> 0.005"
    if r: "bull_bear df = Finite r" for r
  proof -
    obtain k where k: "py_round ties r 2 = of_int k / 10 ^ 2"
      using py_round_int [of ties r 2] by blast
    have "\<bar>py_round ties r 2 - r\<bar> \<le> 0.005"
      using py_round_near [of ties r 2] by simp
    then show ?thesis using k by (auto simp: stored_ratio r)
  qed
  have run: "\<exists>run. load_data ties quotes sectors history now = Some run
           \<and> run_breadth_data run = calculate_breadth_score ties (classify_stocks quotes)
           \<and> bd_score (run_breadth_data run)
               = py_round ties (weighted_score (classify_stocks quotes)) 3
           \<and> run_regime run = fst (classify_regime (run_breadth_data run) sectors)
           \<and> run_regime run =
               fst (classify_regime (b\<lparr> bd_score := bd_score (run_breadth_data run) \<rparr>) sectors)
           \<and> last (run_history run) =
               \<lparr> h_date = strftime_ymd now,
                 h_score = bd_score (run_breadth_data run),
                 h_regime = run_regime run \<rparr>"
    if ne: "quotes \<noteq> []"
  proof -
    let ?bd = "calculate_breadth_score ties (classify_stocks quotes)"
    let ?r = "fst (classify_regime ?bd sectors)"
    let ?run = "\<lparr> run_df = classify_stocks quotes, run_breadth_data = ?bd,
        run_magnitude_data = calculate_magnitude_analysis ties (classify_stocks quotes),
        run_regime = ?r, run_action = snd (classify_regime ?bd sectors),
        run_history = save_score history now (bd_score ?bd) ?r \<rparr>"
    have 1: "load_data ties quotes sectors history now = Some ?run"
      using ne by (simp add: load_data_def Let_def split_beta)
    have 2: "?r = fst (classify_regime (b\<lparr> bd_score := bd_score ?bd \<rparr>) sectors)"
      by (rule classify_regime_score_only) simp
    have 3: "last (run_history ?run) =
               \<lparr> h_date = strftime_ymd now, h_score = bd_score ?bd, h_regime = ?r \<rparr>"
      by (simp add: last_save_score)
    have 4: "bd_score ?bd = py_round ties (weighted_score (classify_stocks quotes)) 3"
      by (rule stored_score)
    show ?thesis
      by (rule exI [of _ ?run]) (use 1 2 3 4 in simp)
  qed
  from stored_score [of ties df] near stored_score_multiple [of ties df]
    stored_ratio [of ties df] inf fin run
  show ?thesis by blast
qed

text \<open>The theorem at a run on the six rows above, with an empty history.\<close>

theorem rounding_at_snapshot_witness:
  "[mkq 3 1.5, mkq (- 3) 0.5, mkq (- 3) 0.5, mkq (- 3) 0.5, mkq 0 1, mkq 0 1] \<noteq> []
   \<and> bull_bear (classify_stocks
        [mkq 3 1.5, mkq (- 3) 0.5, mkq (- 3) 0.5, mkq (- 3) 0.5, mkq 0 1, mkq 0 1])
      = Finite (1 / 3)
   \<and> map_option (h_score \<circ> last \<circ> run_history)
       (load_data ties_to_even
          [mkq 3 1.5, mkq (- 3) 0.5, mkq (- 3) 0.5, mkq (- 3) 0.5, mkq 0 1, mkq 0 1]
          \<lparr> sd_bullish_count = 1, sd_total_count = 4, sd_participation_pct = 25 \<rparr> []
          \<lparr> calendar_day = ''2024-01-01'', time_of_day = 36000 \<rparr>)
     = Some (- 0.167)"
proof -
  let ?Q = "[mkq 3 1.5, mkq (- 3) 0.5, mkq (- 3) 0.5, mkq (- 3) 0.5, mkq 0 1, mkq 0 1]"
  let ?S = "\<lparr> sd_bullish_count = 1, sd_total_count = 4, sd_participation_pct = 25 \<rparr>"
  let ?N = "\<lparr> calendar_day = ''2024-01-01'', time_of_day = 36000 \<rparr>"
  have ne: "?Q \<noteq> []" by simp
  have bb: "bull_bear (classify_stocks ?Q) = Finite (1 / 3)"
    by (simp add: classify_stocks_map first_match_category_def STRONG_MOVE_def
        VOLUME_MULTIPLIER_def bull_bear_def value_counts_def count_rows_def Let_def)
  have w: "py_round ties_to_even (weighted_score (classify_stocks ?Q)) 3 = - 0.167"
    by (simp add: classify_stocks_map first_match_category_def STRONG_MOVE_def
        VOLUME_MULTIPLIER_def weighted_score_def value_counts_def count_rows_def Let_def
        py_round_def)
  from ne rounding_at_snapshot [where quotes = ?Q and sectors = ?S and history = "[]"
      and now = ?N and ties = ties_to_even]
  obtain run where r: "load_data ties_to_even ?Q ?S [] ?N = Some run"
    and l: "h_score (last (run_history run)) = bd_score (run_breadth_data run)"
    and v: "bd_score (run_breadth_data run)
              = py_round ties_to_even (weighted_score (classify_stocks ?Q)) 3"
    by (metis history_record.select_convs(2))
  show ?thesis using ne bb r l v w by simp
qed

section \<open>Composite computations on the empty table: properties\<close>


text \<open>On every table with at least one row both computations return a value.\<close>

lemma composites_defined_on_rows:
  "rows \<noteq> [] \<Longrightarrow>
     (\<exists>t. calculate_market_temperature ties (Table rows) = Inr t)
     \<and> (\<exists>s. detect_capitulation_or_euphoria ties (Table rows) = Inr s)"
  by (simp add: calculate_market_temperature_def detect_capitulation_or_euphoria_def
      calculate_magnitude_stats_def true_div_def Let_def)

section \<open>Fear and greed index: properties\<close>




end
